theory Spec2Isabelle
  imports Main
begin

section \<open>Data of \<^verbatim>\<open>types.ts\<close> and of the generative-model client\<close>

text \<open>
  \<^verbatim>\<open>ImagePart\<close> is \<^verbatim>\<open>{ inlineData: { data: string; mimeType: string } }\<close>: both
  fields are required.
\<close>

record InlineData =
  data :: string
  mimeType :: string

record ImagePart =
  inlineData :: InlineData

text \<open>
  The library types of a request and of a response declare every field optional
  (\<open>None\<close> is \<^verbatim>\<open>undefined\<close>). Of a \<^verbatim>\<open>Part\<close> the code writes \<^verbatim>\<open>text\<close> and reads
  \<^verbatim>\<open>inlineData\<close> (here \<open>partText\<close> and \<open>partInlineData\<close>); of the inline data it
  reads \<^verbatim>\<open>mimeType\<close> and \<^verbatim>\<open>data\<close> (here \<open>blobMimeType\<close> and \<open>blobData\<close>); of the
  response it reads \<^verbatim>\<open>candidates\<close>, of a candidate \<^verbatim>\<open>content\<close>, of a content
  \<^verbatim>\<open>parts\<close>.
\<close>

record Blob =
  blobData :: "string option"
  blobMimeType :: "string option"

record Part =
  partText :: "string option"
  partInlineData :: "Blob option"

record Content =
  parts :: "Part list option"

record Candidate =
  content :: "Content option"

record GenerateContentResponse =
  candidates :: "Candidate list option"

datatype Modality = IMAGE

record GenerateContentParameters =
  model :: string
  contents :: "Part list"
  responseModalities :: "Modality list"

text \<open>
  A thrown JavaScript value: an instance of \<^verbatim>\<open>Error\<close> with its message, or any other
  value (the catch clauses only ask \<^verbatim>\<open>instanceof Error\<close> and read \<^verbatim>\<open>message\<close>).
\<close>

datatype Thrown = Error string | NonError

text \<open>How \<^verbatim>\<open>await model.generateContent(...)\<close> ends: it throws, or it gives a response.\<close>

datatype Outcome = Rejects Thrown | Resolves GenerateContentResponse

text \<open>
  Lines 37 and 38 read properties without a guard; read off \<^verbatim>\<open>undefined\<close>, each raises a
  \<^verbatim>\<open>TypeError\<close>, which is an \<^verbatim>\<open>Error\<close> whose message the JavaScript engine words. The
  reads that can fail: \<^verbatim>\<open>[0]\<close> of absent candidates, \<^verbatim>\<open>.content\<close> of an absent first
  candidate, \<^verbatim>\<open>.parts\<close> of an absent content, the iteration of absent parts, and
  \<^verbatim>\<open>.startsWith\<close> of an absent media type. The engine's wording is a parameter
  \<open>typeError\<close> of the model.
\<close>

datatype BadRead = ReadIndex0 | ReadContent | ReadParts | Iterate | ReadStartsWith

text \<open>
  The effects and the result of one call: the requests that reached the external
  service, the values given to \<^verbatim>\<open>console.error\<close>, and the promise's settlement:
  \<open>Inl\<close> the thrown value, \<open>Inr\<close> the returned value, which is \<^verbatim>\<open>undefined\<close> (\<open>None\<close>)
  when line 39 returns the data of a part that has none.
\<close>

record Run =
  sent :: "GenerateContentParameters list"
  logged :: "Thrown list"
  settled :: "Thrown + string option"

section \<open>\<^verbatim>\<open>generateImageFromReferences\<close>\<close>

text \<open>\<^verbatim>\<open>String.prototype.startsWith\<close> on a search string.\<close>

definition startsWith :: "string \<Rightarrow> string \<Rightarrow> bool" where
  "startsWith s p = (take (length p) s = p)"

text \<open>The template literal of line 22.\<close>

definition prompt :: "string \<Rightarrow> string" where
  "prompt ratio =
     ''Combine the visual characteristics (style, colors, lighting, pose, outfit vibe, composition) of these reference images into a single new, coherent, and realistic image. The final image must have a ''
     @ ratio @
     '' aspect ratio. Ensure consistent anatomy and lighting. The image should be high-detail, photorealistic, and PG-13. Crucially, DO NOT include any text, watermarks, or UI elements in the final image.''"

text \<open>
  An \<^verbatim>\<open>ImagePart\<close> spread into a \<^verbatim>\<open>Part[]\<close> is a part with inline data, both of
  whose fields are there, and no text.
\<close>

definition asPart :: "ImagePart \<Rightarrow> Part" where
  "asPart ip =
     \<lparr>partText = None,
      partInlineData = Some \<lparr>blobData = Some (data (inlineData ip)),
                             blobMimeType = Some (mimeType (inlineData ip))\<rparr>\<rparr>"

text \<open>Lines 24 to 35: \<^verbatim>\<open>[textPart, ...imageParts]\<close> and the argument of \<^verbatim>\<open>generateContent\<close>.\<close>

definition request :: "ImagePart list \<Rightarrow> string \<Rightarrow> GenerateContentParameters" where
  "request imageParts ratio =
     \<lparr>model = ''gemini-2.5-flash-image'',
      contents = \<lparr>partText = Some (prompt ratio), partInlineData = None\<rparr> # map asPart imageParts,
      responseModalities = [IMAGE]\<rparr>"

text \<open>
  \<^verbatim>\<open>response.candidates[0].content.parts\<close> and the start of the iteration, line 37: the
  parts, or the \<^verbatim>\<open>TypeError\<close> of the first read that fails. Index 0 of an empty array
  is \<^verbatim>\<open>undefined\<close>.
\<close>

definition responseParts :: "(BadRead \<Rightarrow> string) \<Rightarrow> GenerateContentResponse \<Rightarrow> Thrown + Part list" where
  "responseParts typeError response =
     (case candidates response of
        None \<Rightarrow> Inl (Error (typeError ReadIndex0))
      | Some [] \<Rightarrow> Inl (Error (typeError ReadContent))
      | Some (candidate # others) \<Rightarrow>
          (case content candidate of
             None \<Rightarrow> Inl (Error (typeError ReadParts))
           | Some c \<Rightarrow>
               (case parts c of
                  None \<Rightarrow> Inl (Error (typeError Iterate))
                | Some ps \<Rightarrow> Inr ps)))"

text \<open>
  The loop of lines 37 to 41. \<open>None\<close>: the loop ran to its end. \<open>Some (Inr d)\<close>: line 39
  returned \<^verbatim>\<open>part.inlineData.data\<close>. \<open>Some (Inl t)\<close>: line 38 threw, which it does at
  a part whose inline data has no \<^verbatim>\<open>mimeType\<close>.
\<close>

fun firstImage :: "(BadRead \<Rightarrow> string) \<Rightarrow> Part list \<Rightarrow> (Thrown + string option) option" where
  "firstImage typeError [] = None"
| "firstImage typeError (part # rest) =
     (case partInlineData part of
        None \<Rightarrow> firstImage typeError rest
      | Some b \<Rightarrow>
          (case blobMimeType b of
             None \<Rightarrow> Some (Inl (Error (typeError ReadStartsWith)))
           | Some m \<Rightarrow>
               if startsWith m ''image/'' then Some (Inr (blobData b))
               else firstImage typeError rest))"

text \<open>The body of the \<^verbatim>\<open>try\<close> block, lines 29 to 43.\<close>

definition tryBody :: "(BadRead \<Rightarrow> string) \<Rightarrow> Outcome \<Rightarrow> Thrown + string option" where
  "tryBody typeError out =
     (case out of
        Rejects t \<Rightarrow> Inl t
      | Resolves response \<Rightarrow>
          (case responseParts typeError response of
             Inl t \<Rightarrow> Inl t
           | Inr ps \<Rightarrow>
               (case firstImage typeError ps of
                  Some result \<Rightarrow> result
                | None \<Rightarrow> Inl (Error ''No image was generated. The model may have refused the request due to safety policies.''))))"

text \<open>Line 47.\<close>

definition errorMessage :: "Thrown \<Rightarrow> string" where
  "errorMessage t =
     (case t of
        Error m \<Rightarrow> m
      | NonError \<Rightarrow> ''An unknown error occurred during image generation.'')"

definition generateImageFromReferences ::
  "(BadRead \<Rightarrow> string) \<Rightarrow> (GenerateContentParameters \<Rightarrow> Outcome) \<Rightarrow> ImagePart list \<Rightarrow> string
   \<Rightarrow> Run" where
  "generateImageFromReferences typeError generateContent imageParts ratio =
     (if length imageParts < 2 \<or> length imageParts > 4
      then \<lparr>sent = [], logged = [],
            settled = Inl (Error ''Please provide 2 to 4 reference images.'')\<rparr>
      else
        (case tryBody typeError (generateContent (request imageParts ratio)) of
           Inr d \<Rightarrow> \<lparr>sent = [request imageParts ratio], logged = [], settled = Inr d\<rparr>
         | Inl t \<Rightarrow>
             \<lparr>sent = [request imageParts ratio], logged = [t],
              settled = Inl (Error (''Failed to generate image: '' @ errorMessage t))\<rparr>))"

section \<open>The state of \<^verbatim>\<open>App\<close> and its handlers\<close>

text \<open>
  A browser \<^verbatim>\<open>File\<close>: the code reads \<^verbatim>\<open>name\<close> and \<^verbatim>\<open>type\<close>; \<open>bytes\<close> stands for
  the content, so that two files of one name can differ.
\<close>

record File =
  name :: string
  type :: string
  bytes :: string

record ReferenceImage =
  id_image :: string
  file_image :: File
  base64 :: string

datatype AspectRatio = Ratio_1_1 | Ratio_9_16 | Ratio_16_9

text \<open>The string that a value of the union type \<^verbatim>\<open>"1:1" | "9:16" | "16:9"\<close> is.\<close>

fun ratioString :: "AspectRatio \<Rightarrow> string" where
  "ratioString Ratio_1_1 = ''1:1''"
| "ratioString Ratio_9_16 = ''9:16''"
| "ratioString Ratio_16_9 = ''16:9''"

text \<open>
  The five \<^verbatim>\<open>useState\<close> cells of lines 13 to 17. \<open>None\<close> is \<^verbatim>\<open>null\<close>, and in
  \<open>generatedImage\<close> also the \<^verbatim>\<open>undefined\<close> that a call can return: the code only
  asks whether the cell holds a value.
\<close>

record App =
  referenceImages :: "ReferenceImage list"
  aspectRatio :: AspectRatio
  generatedImage :: "string option"
  isLoading :: bool
  error :: "string option"

definition initial :: App where
  "initial = \<lparr>referenceImages = [], aspectRatio = Ratio_1_1, generatedImage = None,
              isLoading = False, error = None\<rparr>"

subsection \<open>\<^verbatim>\<open>fileToBase64\<close>\<close>

text \<open>\<^verbatim>\<open>s.split(',')\<close>: the pieces of \<open>s\<close> between its commas, at least one piece.\<close>

fun splitComma :: "string \<Rightarrow> string list" where
  "splitComma [] = [[]]"
| "splitComma (c # cs) =
     (if c = CHR '','' then [] # splitComma cs
      else (case splitComma cs of
              [] \<Rightarrow> [[c]]
            | w # ws \<Rightarrow> (c # w) # ws))"

text \<open>
  What \<^verbatim>\<open>FileReader.readAsDataURL\<close> ends with: \<^verbatim>\<open>onerror\<close>, or \<^verbatim>\<open>onload\<close> with a
  data URL as \<^verbatim>\<open>reader.result\<close>. A data URL is a header, a comma and the payload;
  \<open>Loaded h p\<close> is the URL \<open>h @ '','' @ p\<close>, so that \<^verbatim>\<open>split(',')[1]\<close> is in range.
\<close>

datatype ReadResult = ReadError | Loaded string string

text \<open>Lines 19 to 30; \<open>None\<close> is the rejected promise.\<close>

definition fileToBase64 :: "(File \<Rightarrow> ReadResult) \<Rightarrow> File \<Rightarrow> string option" where
  "fileToBase64 reader f =
     (case reader f of
        ReadError \<Rightarrow> None
      | Loaded h p \<Rightarrow> Some (splitComma (h @ CHR '','' # p) ! 1))"

subsection \<open>\<^verbatim>\<open>handleFileChange\<close>\<close>

text \<open>A non-negative integer in a template literal: its decimal digits.\<close>

fun decimal :: "nat \<Rightarrow> string" where
  "decimal n =
     (if n < 10 then [''0123456789'' ! n]
      else decimal (n div 10) @ [''0123456789'' ! (n mod 10)])"

declare decimal.simps [simp del]

text \<open>
  Lines 42 to 49. \<open>now i\<close> is what \<^verbatim>\<open>Date.now()\<close> returns in the callback of the
  \<open>i\<close>-th file (milliseconds since the epoch). \<^verbatim>\<open>Promise.all\<close> rejects when one
  encoding rejects: \<open>None\<close>.
\<close>

definition newImages ::
  "(File \<Rightarrow> ReadResult) \<Rightarrow> (nat \<Rightarrow> nat) \<Rightarrow> File list \<Rightarrow> ReferenceImage list option" where
  "newImages reader now files =
     those (map (\<lambda>(i, f).
                   map_option
                     (\<lambda>b. \<lparr>id_image = name f @ ''-'' @ decimal (now i), file_image = f, base64 = b\<rparr>)
                     (fileToBase64 reader f))
                (enumerate 0 files))"

text \<open>
  Lines 33 to 40, up to the \<^verbatim>\<open>await\<close>: the state, and the files whose encoding is
  awaited (\<open>None\<close> when the handler has returned). The argument is
  \<^verbatim>\<open>event.target.files\<close>, \<open>None\<close> for \<^verbatim>\<open>null\<close>.
\<close>

definition handleFileChange_enter :: "File list option \<Rightarrow> App \<Rightarrow> App \<times> File list option" where
  "handleFileChange_enter files s =
     (case files of
        None \<Rightarrow> (s, None)
      | Some fs \<Rightarrow>
          if length (referenceImages s) + length fs > 4
          then (s\<lparr>error := Some ''You can upload a maximum of 4 images.''\<rparr>, None)
          else (s\<lparr>error := None\<rparr>, Some fs))"

text \<open>Line 50, after the \<^verbatim>\<open>await\<close>, on the state of that moment.\<close>

definition handleFileChange_resume :: "ReferenceImage list option \<Rightarrow> App \<Rightarrow> App" where
  "handleFileChange_resume r s =
     (case r of
        None \<Rightarrow> s
      | Some imgs \<Rightarrow> s\<lparr>referenceImages := referenceImages s @ imgs\<rparr>)"

text \<open>The handler run to its end with no other event in between.\<close>

definition handleFileChange ::
  "(File \<Rightarrow> ReadResult) \<Rightarrow> (nat \<Rightarrow> nat) \<Rightarrow> File list option \<Rightarrow> App \<Rightarrow> App" where
  "handleFileChange reader now files s =
     (case handleFileChange_enter files s of
        (s1, None) \<Rightarrow> s1
      | (s1, Some fs) \<Rightarrow> handleFileChange_resume (newImages reader now fs) s1)"

subsection \<open>\<^verbatim>\<open>handleRemoveImage\<close>\<close>

definition handleRemoveImage :: "string \<Rightarrow> App \<Rightarrow> App" where
  "handleRemoveImage i s =
     (let s1 = s\<lparr>referenceImages := filter (\<lambda>img. id_image img \<noteq> i) (referenceImages s)\<rparr>
      in if int (length (referenceImages s)) - 1 < 2 then s1\<lparr>generatedImage := None\<rparr> else s1)"

subsection \<open>\<^verbatim>\<open>handleGenerate\<close>\<close>

text \<open>
  Lines 62 to 76, up to the \<^verbatim>\<open>await\<close>: the state, and the image parts of the call
  (\<open>None\<close> when the handler has returned).
\<close>

definition handleGenerate_enter :: "App \<Rightarrow> App \<times> ImagePart list option" where
  "handleGenerate_enter s =
     (if length (referenceImages s) < 2
      then (s\<lparr>error := Some ''Please upload at least 2 images.''\<rparr>, None)
      else (s\<lparr>isLoading := True, error := None, generatedImage := None\<rparr>,
            Some (map (\<lambda>img. \<lparr>inlineData = \<lparr>data = base64 img, mimeType = type (file_image img)\<rparr>\<rparr>)
                      (referenceImages s))))"

text \<open>Lines 78 to 85, after the \<^verbatim>\<open>await\<close>, on the state of that moment.\<close>

definition handleGenerate_resume :: "Thrown + string option \<Rightarrow> App \<Rightarrow> App" where
  "handleGenerate_resume r s =
     (case r of
        Inr resultBase64 \<Rightarrow> s\<lparr>generatedImage := resultBase64\<rparr>
      | Inl err \<Rightarrow>
          s\<lparr>error := Some (case err of
                             Error m \<Rightarrow> m
                           | NonError \<Rightarrow> ''An unexpected error occurred.'')\<rparr>)
     \<lparr>isLoading := False\<rparr>"

text \<open>The handler run to its end with no other event in between.\<close>

definition handleGenerate ::
  "(BadRead \<Rightarrow> string) \<Rightarrow> (GenerateContentParameters \<Rightarrow> Outcome) \<Rightarrow> App \<Rightarrow> App" where
  "handleGenerate typeError generateContent s =
     (case handleGenerate_enter s of
        (s1, None) \<Rightarrow> s1
      | (s1, Some imageParts) \<Rightarrow>
          handleGenerate_resume
            (settled (generateImageFromReferences typeError generateContent imageParts
                        (ratioString (aspectRatio s))))
            s1)"

text \<open>Line 98.\<close>

definition canGenerate :: "App \<Rightarrow> bool" where
  "canGenerate s = (length (referenceImages s) \<ge> 2 \<and> length (referenceImages s) \<le> 4)"

subsection \<open>The result section of the page\<close>

text \<open>
  Lines 175 to 208: one of four panels. A string in a condition counts as true when it
  is neither \<^verbatim>\<open>null\<close> nor empty.
\<close>

datatype Panel = Spinner | ErrorBox string | ResultImage string | Placeholder

definition resultSection :: "App \<Rightarrow> Panel" where
  "resultSection s =
     (if isLoading s then Spinner
      else (case error s of
              Some (c # cs) \<Rightarrow> ErrorBox (c # cs)
            | _ \<Rightarrow> (case generatedImage s of
                      Some (c # cs) \<Rightarrow> ResultImage (c # cs)
                    | _ \<Rightarrow> Placeholder)))"

section \<open>The page as a transition system\<close>

text \<open>
  The page runs on one thread: a handler runs until it returns or reaches an
  \<^verbatim>\<open>await\<close>, and what follows the \<^verbatim>\<open>await\<close> runs later, on the state of that
  moment. The world is the state of \<^verbatim>\<open>App\<close> and the continuations that wait: the
  outcome of an awaited \<^verbatim>\<open>Promise.all\<close> of encodings, or the settlement of an awaited
  call of \<^verbatim>\<open>generateImageFromReferences\<close>.
\<close>

datatype Continuation =
    FilesRead "ReferenceImage list option"
  | Generated "Thrown + string option"

type_synonym World = "App \<times> Continuation list"

fun resume :: "Continuation \<Rightarrow> App \<Rightarrow> App" where
  "resume (FilesRead r) s = handleFileChange_resume r s"
| "resume (Generated r) s = handleGenerate_resume r s"

text \<open>
  What can happen to the page. A file selection comes with what the readers and the
  clock will answer; a click on Generate comes with the engine's wording of a
  \<^verbatim>\<open>TypeError\<close> and with what the external service will answer. The remove button exists for the images on display (line 126), the
  Generate button is disabled by \<^verbatim>\<open>!canGenerate || isLoading\<close> (line 164).
\<close>

datatype Event =
    FileChange "File \<Rightarrow> ReadResult" "nat \<Rightarrow> nat" "File list option"
  | RemoveImage string
  | SelectRatio AspectRatio
  | ClickGenerate "BadRead \<Rightarrow> string" "GenerateContentParameters \<Rightarrow> Outcome"
  | Settle nat

fun step :: "Event \<Rightarrow> World \<Rightarrow> World option" where
  "step (FileChange reader now files) (s, k) =
     (case handleFileChange_enter files s of
        (s1, None) \<Rightarrow> Some (s1, k)
      | (s1, Some fs) \<Rightarrow> Some (s1, k @ [FilesRead (newImages reader now fs)]))"
| "step (RemoveImage i) (s, k) =
     (if i \<in> set (map id_image (referenceImages s))
      then Some (handleRemoveImage i s, k) else None)"
| "step (SelectRatio r) (s, k) = Some (s\<lparr>aspectRatio := r\<rparr>, k)"
| "step (ClickGenerate typeError generateContent) (s, k) =
     (if canGenerate s \<and> \<not> isLoading s
      then (case handleGenerate_enter s of
              (s1, None) \<Rightarrow> Some (s1, k)
            | (s1, Some imageParts) \<Rightarrow>
                Some (s1, k @ [Generated (settled (generateImageFromReferences typeError
                                                    generateContent imageParts
                                                    (ratioString (aspectRatio s))))]))
      else None)"
| "step (Settle j) (s, k) =
     (if j < length k then Some (resume (k ! j) s, take j k @ drop (Suc j) k) else None)"

text \<open>A sequence of events from a world; \<open>None\<close> when one of them cannot happen.\<close>

fun run :: "Event list \<Rightarrow> World \<Rightarrow> World option" where
  "run [] w = Some w"
| "run (e # es) w = (case step e w of None \<Rightarrow> None | Some w' \<Rightarrow> run es w')"

section \<open>An invariant of the transition system\<close>

text \<open>
  A continuation that waits for \<^verbatim>\<open>generateImageFromReferences\<close>. While one waits,
  \<open>isLoading\<close> holds, no second one can start, no result is stored, and the only
  error that can be stored is the one of a rejected file selection.
\<close>

fun awaitsGeneration :: "Continuation \<Rightarrow> bool" where
  "awaitsGeneration (Generated r) = True"
| "awaitsGeneration (FilesRead r) = False"

definition coherent :: "World \<Rightarrow> bool" where
  "coherent w =
     (case w of (s, k) \<Rightarrow>
        (if isLoading s
         then length (filter awaitsGeneration k) = 1 \<and> generatedImage s = None
              \<and> (error s = None \<or> error s = Some ''You can upload a maximum of 4 images.'')
         else filter awaitsGeneration k = []
              \<and> (generatedImage s = None \<or> error s = None
                  \<or> error s = Some ''You can upload a maximum of 4 images.'')))"

section \<open>Example inputs\<close>

text \<open>
  Two image parts. An engine's wording of the type errors. Parts of a response: a
  caption, an attached text, two pictures, inline data without a media type, a picture
  without data; and a response that holds given parts in its first candidate. Three
  files, two of them of one name (picked from two folders in one selection); a reader
  that loads every file (the payload of the data URL is written as the bytes
  themselves); a service that answers with one picture.
\<close>

abbreviation (input) part_png :: ImagePart where
  "part_png \<equiv> \<lparr>inlineData = \<lparr>data = ''first'', mimeType = ''image/png''\<rparr>\<rparr>"

abbreviation (input) part_jpg :: ImagePart where
  "part_jpg \<equiv> \<lparr>inlineData = \<lparr>data = ''third'', mimeType = ''image/jpeg''\<rparr>\<rparr>"

abbreviation (input) wording :: "BadRead \<Rightarrow> string" where
  "wording \<equiv> (\<lambda>b. case b of
       ReadIndex0 \<Rightarrow> ''Cannot read properties of undefined (reading '0')''
     | ReadContent \<Rightarrow> ''Cannot read properties of undefined (reading 'content')''
     | ReadParts \<Rightarrow> ''Cannot read properties of undefined (reading 'parts')''
     | Iterate \<Rightarrow> ''undefined is not iterable''
     | ReadStartsWith \<Rightarrow> ''Cannot read properties of undefined (reading 'startsWith')'')"

abbreviation (input) caption :: Part where
  "caption \<equiv> \<lparr>partText = Some ''Here is the image.'', partInlineData = None\<rparr>"


abbreviation (input) picture_R :: Part where
  "picture_R \<equiv>
     \<lparr>partText = None,
      partInlineData = Some \<lparr>blobData = Some ''R'', blobMimeType = Some ''image/png''\<rparr>\<rparr>"


abbreviation (input) untyped_data :: Part where
  "untyped_data \<equiv>
     \<lparr>partText = None, partInlineData = Some \<lparr>blobData = Some ''AAAA'', blobMimeType = None\<rparr>\<rparr>"


abbreviation (input) response_of :: "Part list \<Rightarrow> GenerateContentResponse" where
  "response_of ps \<equiv> \<lparr>candidates = Some [\<lparr>content = Some \<lparr>parts = Some ps\<rparr>\<rparr>]\<rparr>"

abbreviation (input) png_a1 :: File where
  "png_a1 \<equiv> \<lparr>name = ''a.png'', type = ''image/png'', bytes = ''first''\<rparr>"

abbreviation (input) png_a2 :: File where
  "png_a2 \<equiv> \<lparr>name = ''a.png'', type = ''image/png'', bytes = ''second''\<rparr>"

abbreviation (input) jpg_b :: File where
  "jpg_b \<equiv> \<lparr>name = ''b.jpg'', type = ''image/jpeg'', bytes = ''third''\<rparr>"

abbreviation (input) reads :: "File \<Rightarrow> ReadResult" where
  "reads \<equiv> (\<lambda>f. Loaded (''data:'' @ type f @ '';base64'') (bytes f))"

abbreviation (input) answers :: "GenerateContentParameters \<Rightarrow> Outcome" where
  "answers \<equiv> (\<lambda>q. Resolves (response_of [picture_R]))"

section \<open>The generation client\<close>

subsection \<open>Helper facts\<close>

lemma out_of_range_run:
  "length ips < 2 \<or> length ips > 4 \<Longrightarrow>
   generateImageFromReferences te svc ips r =
     \<lparr>sent = [], logged = [],
      settled = Inl (Error ''Please provide 2 to 4 reference images.'')\<rparr>"
  by (simp add: generateImageFromReferences_def)

lemma in_range_run:
  "2 \<le> length ips \<Longrightarrow> length ips \<le> 4 \<Longrightarrow>
   generateImageFromReferences te svc ips r =
     (case tryBody te (svc (request ips r)) of
        Inr d \<Rightarrow> \<lparr>sent = [request ips r], logged = [], settled = Inr d\<rparr>
      | Inl t \<Rightarrow> \<lparr>sent = [request ips r], logged = [t],
                  settled = Inl (Error (''Failed to generate image: '' @ errorMessage t))\<rparr>)"
  by (simp add: generateImageFromReferences_def)

lemma prompt_holds_ratio: "\<exists>before after. prompt r = before @ r @ after"
  unfolding prompt_def by (rule exI, rule exI, rule refl)





subsection \<open>Claims\<close>

text \<open>
  Claim C1. A call with fewer than 2 or more than 4 image parts, whatever the aspect
  ratio and whatever the service would answer, is rejected with the error
  \<^verbatim>\<open>Please provide 2 to 4 reference images.\<close>, and no request reaches the external
  service.
\<close>

theorem bad_count_rejected:
  assumes "length ips < 2 \<or> length ips > 4"
  shows "settled (generateImageFromReferences te svc ips r) =
           Inl (Error ''Please provide 2 to 4 reference images.'')
         \<and> sent (generateImageFromReferences te svc ips r) = []"
  using out_of_range_run [OF assms, of te svc r] by simp

text \<open>C1 at one image part and at five.\<close>

theorem bad_count_rejected_witness:
  "settled (generateImageFromReferences wording (\<lambda>q. Resolves (response_of [])) [part_png] ''1:1'') =
     Inl (Error ''Please provide 2 to 4 reference images.'')
   \<and> sent (generateImageFromReferences wording (\<lambda>q. Resolves (response_of [])) [part_png] ''1:1'') = []
   \<and> settled (generateImageFromReferences wording (\<lambda>q. Resolves (response_of []))
                [part_png, part_jpg, part_png, part_jpg, part_png] ''9:16'') =
     Inl (Error ''Please provide 2 to 4 reference images.'')
   \<and> sent (generateImageFromReferences wording (\<lambda>q. Resolves (response_of []))
             [part_png, part_jpg, part_png, part_jpg, part_png] ''9:16'') = []"
proof -
  have one: "length [part_png] < 2 \<or> length [part_png] > 4"
    by simp
  have five: "length [part_png, part_jpg, part_png, part_jpg, part_png] < 2
              \<or> length [part_png, part_jpg, part_png, part_jpg, part_png] > 4"
    by simp
  show ?thesis
    using bad_count_rejected [OF one, of wording "\<lambda>q. Resolves (response_of [])" "''1:1''"]
      bad_count_rejected [OF five, of wording "\<lambda>q. Resolves (response_of [])" "''9:16''"]
    by simp
qed

text \<open>
  Claim C2. A call with 2 to 4 image parts sends one request; its parts are one text
  part, whose text contains the aspect ratio as it was given, followed by the
  supplied image payloads, all of them and in their order.
\<close>

theorem request_shape:
  assumes "2 \<le> length ips" and "length ips \<le> 4"
  shows "\<exists>before after.
           sent (generateImageFromReferences te svc ips r) =
             [\<lparr>model = ''gemini-2.5-flash-image'',
               contents =
                 \<lparr>partText = Some (before @ r @ after), partInlineData = None\<rparr>
                 # map (\<lambda>ip. \<lparr>partText = None,
                               partInlineData =
                                 Some \<lparr>blobData = Some (data (inlineData ip)),
                                       blobMimeType = Some (mimeType (inlineData ip))\<rparr>\<rparr>) ips,
               responseModalities = [IMAGE]\<rparr>]"
proof -
  obtain before after where p: "prompt r = before @ r @ after"
    using prompt_holds_ratio by blast
  have "sent (generateImageFromReferences te svc ips r) = [request ips r]"
    using in_range_run [OF assms, of te svc r] by (simp split: sum.splits)
  then have "sent (generateImageFromReferences te svc ips r) =
             [\<lparr>model = ''gemini-2.5-flash-image'',
               contents =
                 \<lparr>partText = Some (before @ r @ after), partInlineData = None\<rparr>
                 # map (\<lambda>ip. \<lparr>partText = None,
                               partInlineData =
                                 Some \<lparr>blobData = Some (data (inlineData ip)),
                                       blobMimeType = Some (mimeType (inlineData ip))\<rparr>\<rparr>) ips,
               responseModalities = [IMAGE]\<rparr>]"
    by (simp add: request_def p asPart_def)
  then show ?thesis by blast
qed

text \<open>C2 at two image parts and the ratio \<^verbatim>\<open>16:9\<close>.\<close>

theorem request_shape_witness:
  "\<exists>before after.
     sent (generateImageFromReferences wording (\<lambda>q. Rejects NonError) [part_png, part_jpg] ''16:9'') =
       [\<lparr>model = ''gemini-2.5-flash-image'',
         contents =
           [\<lparr>partText = Some (before @ ''16:9'' @ after), partInlineData = None\<rparr>,
            \<lparr>partText = None,
             partInlineData = Some \<lparr>blobData = Some ''first'', blobMimeType = Some ''image/png''\<rparr>\<rparr>,
            \<lparr>partText = None,
             partInlineData = Some \<lparr>blobData = Some ''third'', blobMimeType = Some ''image/jpeg''\<rparr>\<rparr>],
         responseModalities = [IMAGE]\<rparr>]"
proof -
  have lo: "2 \<le> length [part_png, part_jpg]" and hi: "length [part_png, part_jpg] \<le> 4"
    by simp_all
  show ?thesis
    using request_shape [OF lo hi, of wording "\<lambda>q. Rejects NonError" "''16:9''"] by simp
qed







text \<open>
  Claim C5. When the external call throws, or reading the parts of the response
  throws, or the loop throws, or the response holds no image, the call has sent its
  one request and no other, has logged the underlying value, and throws one error:
  \<^verbatim>\<open>Failed to generate image: \<close> followed by the message of the underlying error, or by
  the unknown-error text when the thrown value is not an \<^verbatim>\<open>Error\<close>.
\<close>

theorem failure_rewrapped_once:
  assumes "2 \<le> length ips" and "length ips \<le> 4"
    and "svc (request ips r) = Rejects t
         \<or> (\<exists>response. svc (request ips r) = Resolves response
                \<and> responseParts te response = Inl t)
         \<or> (\<exists>response ps. svc (request ips r) = Resolves response
                \<and> responseParts te response = Inr ps \<and> firstImage te ps = Some (Inl t))
         \<or> (\<exists>response ps. svc (request ips r) = Resolves response
                \<and> responseParts te response = Inr ps \<and> firstImage te ps = None
                \<and> t = Error ''No image was generated. The model may have refused the request due to safety policies.'')"
  shows "generateImageFromReferences te svc ips r =
           \<lparr>sent = [request ips r], logged = [t],
            settled = Inl (Error (''Failed to generate image: '' @
                                  (case t of
                                     Error m \<Rightarrow> m
                                   | NonError \<Rightarrow> ''An unknown error occurred during image generation.'')))\<rparr>"
proof -
  have "tryBody te (svc (request ips r)) = Inl t"
    using assms(3) by (auto simp: tryBody_def)
  then show ?thesis
    using in_range_run [OF assms(1,2), of te svc r] by (simp add: errorMessage_def)
qed

text \<open>
  C5 at a service that throws an \<^verbatim>\<open>Error\<close>, at one that throws another value, at one
  that answers without candidates, at one whose answer makes the loop throw, and at
  one that answers with a caption only.
\<close>

theorem failure_rewrapped_once_witness:
  "generateImageFromReferences wording (\<lambda>q. Rejects (Error ''fetch failed'')) [part_png, part_jpg] ''1:1'' =
     \<lparr>sent = [request [part_png, part_jpg] ''1:1''], logged = [Error ''fetch failed''],
      settled = Inl (Error ''Failed to generate image: fetch failed'')\<rparr>
   \<and> generateImageFromReferences wording (\<lambda>q. Rejects NonError) [part_png, part_jpg] ''1:1'' =
     \<lparr>sent = [request [part_png, part_jpg] ''1:1''], logged = [NonError],
      settled = Inl (Error ''Failed to generate image: An unknown error occurred during image generation.'')\<rparr>
   \<and> generateImageFromReferences wording (\<lambda>q. Resolves \<lparr>candidates = Some []\<rparr>)
        [part_png, part_jpg] ''1:1'' =
     \<lparr>sent = [request [part_png, part_jpg] ''1:1''],
      logged = [Error ''Cannot read properties of undefined (reading 'content')''],
      settled = Inl (Error ''Failed to generate image: Cannot read properties of undefined (reading 'content')'')\<rparr>
   \<and> generateImageFromReferences wording (\<lambda>q. Resolves (response_of [untyped_data]))
        [part_png, part_jpg] ''1:1'' =
     \<lparr>sent = [request [part_png, part_jpg] ''1:1''],
      logged = [Error ''Cannot read properties of undefined (reading 'startsWith')''],
      settled = Inl (Error ''Failed to generate image: Cannot read properties of undefined (reading 'startsWith')'')\<rparr>
   \<and> generateImageFromReferences wording (\<lambda>q. Resolves (response_of [caption]))
        [part_png, part_jpg] ''1:1'' =
     \<lparr>sent = [request [part_png, part_jpg] ''1:1''],
      logged = [Error ''No image was generated. The model may have refused the request due to safety policies.''],
      settled = Inl (Error ''Failed to generate image: No image was generated. The model may have refused the request due to safety policies.'')\<rparr>"
proof -
  have lo: "2 \<le> length [part_png, part_jpg]" and hi: "length [part_png, part_jpg] \<le> 4"
    by simp_all
  note inst = failure_rewrapped_once [OF lo hi, where te = wording and r = "''1:1''"]
  have a: "generateImageFromReferences wording (\<lambda>q. Rejects (Error ''fetch failed''))
             [part_png, part_jpg] ''1:1'' =
     \<lparr>sent = [request [part_png, part_jpg] ''1:1''], logged = [Error ''fetch failed''],
      settled = Inl (Error ''Failed to generate image: fetch failed'')\<rparr>"
    using inst [where svc = "\<lambda>q. Rejects (Error ''fetch failed'')" and t = "Error ''fetch failed''"]
    by simp
  have b: "generateImageFromReferences wording (\<lambda>q. Rejects NonError) [part_png, part_jpg] ''1:1'' =
     \<lparr>sent = [request [part_png, part_jpg] ''1:1''], logged = [NonError],
      settled = Inl (Error ''Failed to generate image: An unknown error occurred during image generation.'')\<rparr>"
    using inst [where svc = "\<lambda>q. Rejects NonError" and t = NonError]
    by simp
  have c: "generateImageFromReferences wording (\<lambda>q. Resolves \<lparr>candidates = Some []\<rparr>)
        [part_png, part_jpg] ''1:1'' =
     \<lparr>sent = [request [part_png, part_jpg] ''1:1''],
      logged = [Error ''Cannot read properties of undefined (reading 'content')''],
      settled = Inl (Error ''Failed to generate image: Cannot read properties of undefined (reading 'content')'')\<rparr>"
    using inst [where svc = "\<lambda>q. Resolves \<lparr>candidates = Some []\<rparr>"
        and t = "Error ''Cannot read properties of undefined (reading 'content')''"]
    by (simp add: responseParts_def)
  have d: "generateImageFromReferences wording (\<lambda>q. Resolves (response_of [untyped_data]))
        [part_png, part_jpg] ''1:1'' =
     \<lparr>sent = [request [part_png, part_jpg] ''1:1''],
      logged = [Error ''Cannot read properties of undefined (reading 'startsWith')''],
      settled = Inl (Error ''Failed to generate image: Cannot read properties of undefined (reading 'startsWith')'')\<rparr>"
    using inst [where svc = "\<lambda>q. Resolves (response_of [untyped_data])"
        and t = "Error ''Cannot read properties of undefined (reading 'startsWith')''"]
    by (simp add: responseParts_def)
  have e: "generateImageFromReferences wording (\<lambda>q. Resolves (response_of [caption]))
        [part_png, part_jpg] ''1:1'' =
     \<lparr>sent = [request [part_png, part_jpg] ''1:1''],
      logged = [Error ''No image was generated. The model may have refused the request due to safety policies.''],
      settled = Inl (Error ''Failed to generate image: No image was generated. The model may have refused the request due to safety policies.'')\<rparr>"
    using inst [where svc = "\<lambda>q. Resolves (response_of [caption])"
        and t = "Error ''No image was generated. The model may have refused the request due to safety policies.''"]
    by (simp add: responseParts_def)
  show ?thesis
    using a b c d e by blast
qed

text \<open>
  Claim C10. The error of a wrong number of image parts is thrown before the
  \<^verbatim>\<open>try\<close> block: its message is the bare validation text and nothing is logged.
  The error of a response without image is thrown inside the block, when the loop has
  run to its end: the \<^verbatim>\<open>catch\<close> logs it and throws it again behind the prefix
  \<^verbatim>\<open>Failed to generate image: \<close>.
\<close>

theorem validation_bare_no_image_wrapped:
  "(length ips < 2 \<or> length ips > 4 \<longrightarrow>
      settled (generateImageFromReferences te svc ips r) =
        Inl (Error ''Please provide 2 to 4 reference images.'')
      \<and> logged (generateImageFromReferences te svc ips r) = [])
   \<and> (2 \<le> length ips \<and> length ips \<le> 4 \<and> svc (request ips r) = Resolves response
        \<and> responseParts te response = Inr ps \<and> firstImage te ps = None \<longrightarrow>
      settled (generateImageFromReferences te svc ips r) =
        Inl (Error ''Failed to generate image: No image was generated. The model may have refused the request due to safety policies.'')
      \<and> logged (generateImageFromReferences te svc ips r) =
        [Error ''No image was generated. The model may have refused the request due to safety policies.''])"
proof (intro conjI impI)
  assume "length ips < 2 \<or> length ips > 4"
  then have run: "generateImageFromReferences te svc ips r =
     \<lparr>sent = [], logged = [],
      settled = Inl (Error ''Please provide 2 to 4 reference images.'')\<rparr>"
    by (rule out_of_range_run)
  show "settled (generateImageFromReferences te svc ips r) =
        Inl (Error ''Please provide 2 to 4 reference images.'')"
    by (simp add: run)
  show "logged (generateImageFromReferences te svc ips r) = []"
    by (simp add: run)
next
  assume h: "2 \<le> length ips \<and> length ips \<le> 4 \<and> svc (request ips r) = Resolves response
             \<and> responseParts te response = Inr ps \<and> firstImage te ps = None"
  then have "tryBody te (svc (request ips r)) =
               Inl (Error ''No image was generated. The model may have refused the request due to safety policies.'')"
    by (simp add: tryBody_def)
  then have run: "generateImageFromReferences te svc ips r =
     \<lparr>sent = [request ips r],
      logged = [Error ''No image was generated. The model may have refused the request due to safety policies.''],
      settled = Inl (Error ''Failed to generate image: No image was generated. The model may have refused the request due to safety policies.'')\<rparr>"
    using h in_range_run [of ips te svc r] by (simp add: errorMessage_def)
  show "settled (generateImageFromReferences te svc ips r) =
        Inl (Error ''Failed to generate image: No image was generated. The model may have refused the request due to safety policies.'')"
    by (simp add: run)
  show "logged (generateImageFromReferences te svc ips r) =
        [Error ''No image was generated. The model may have refused the request due to safety policies.'']"
    by (simp add: run)
qed

text \<open>C10 at one image part, and at two image parts with a response of a caption only.\<close>

theorem validation_bare_no_image_wrapped_witness:
  "settled (generateImageFromReferences wording (\<lambda>q. Resolves (response_of [caption]))
              [part_png] ''1:1'') =
     Inl (Error ''Please provide 2 to 4 reference images.'')
   \<and> logged (generateImageFromReferences wording (\<lambda>q. Resolves (response_of [caption]))
               [part_png] ''1:1'') = []
   \<and> settled (generateImageFromReferences wording (\<lambda>q. Resolves (response_of [caption]))
                [part_png, part_jpg] ''1:1'') =
     Inl (Error ''Failed to generate image: No image was generated. The model may have refused the request due to safety policies.'')
   \<and> logged (generateImageFromReferences wording (\<lambda>q. Resolves (response_of [caption]))
               [part_png, part_jpg] ''1:1'') =
     [Error ''No image was generated. The model may have refused the request due to safety policies.'']"
  using validation_bare_no_image_wrapped
      [of "[part_png]" wording "\<lambda>q. Resolves (response_of [caption])" "''1:1''"
          "response_of [caption]" "[caption]"]
    validation_bare_no_image_wrapped
      [of "[part_png, part_jpg]" wording "\<lambda>q. Resolves (response_of [caption])" "''1:1''"
          "response_of [caption]" "[caption]"]
  by (simp add: responseParts_def)

section \<open>The page\<close>

subsection \<open>The invariant holds in every reachable world\<close>

lemma filter_remove_nth:
  assumes "j < length k"
  shows "filter P (take j k @ drop (Suc j) k) =
         (if P (k ! j) then filter P (take j k) @ filter P (drop (Suc j) k) else filter P k)"
proof -
  have "k = take j k @ k ! j # drop (Suc j) k"
    using assms by (rule id_take_nth_drop)
  then have "filter P k = filter P (take j k) @ filter P (k ! j # drop (Suc j) k)"
    by (metis filter_append)
  then show ?thesis by simp
qed

lemma length_filter_remove_nth:
  assumes "j < length k" and "P (k ! j)"
  shows "Suc (length (filter P (take j k @ drop (Suc j) k))) = length (filter P k)"
proof -
  have "k = take j k @ k ! j # drop (Suc j) k"
    using assms(1) by (rule id_take_nth_drop)
  then have "filter P k = filter P (take j k) @ filter P (k ! j # drop (Suc j) k)"
    by (metis filter_append)
  then show ?thesis using assms(2) by simp
qed

lemma coherent_initial: "coherent (initial, [])"
  by (simp add: coherent_def initial_def)

lemma coherent_fileChange:
  "coherent (s, k) \<Longrightarrow> step (FileChange reader now files) (s, k) = Some w \<Longrightarrow> coherent w"
  by (auto simp: coherent_def handleFileChange_enter_def
           split: option.splits if_splits)

lemma coherent_removeImage:
  "coherent (s, k) \<Longrightarrow> step (RemoveImage i) (s, k) = Some w \<Longrightarrow> coherent w"
  by (auto simp: coherent_def handleRemoveImage_def Let_def split: if_splits)

lemma coherent_selectRatio:
  "coherent (s, k) \<Longrightarrow> step (SelectRatio r) (s, k) = Some w \<Longrightarrow> coherent w"
  by (auto simp: coherent_def split: if_splits)

lemma coherent_clickGenerate:
  "coherent (s, k) \<Longrightarrow> step (ClickGenerate te svc) (s, k) = Some w \<Longrightarrow> coherent w"
  by (auto simp: coherent_def handleGenerate_enter_def canGenerate_def split: if_splits)

lemma coherent_settle:
  assumes "coherent (s, k)" and "step (Settle j) (s, k) = Some w"
  shows "coherent w"
proof -
  from assms(2) have j: "j < length k"
    and w: "w = (resume (k ! j) s, take j k @ drop (Suc j) k)"
    by (auto split: if_splits)
  show ?thesis
  proof (cases "k ! j")
    case (FilesRead r)
    then have "filter awaitsGeneration (take j k @ drop (Suc j) k) = filter awaitsGeneration k"
      using filter_remove_nth [OF j, of awaitsGeneration] by simp
    then show ?thesis
      using assms(1) FilesRead
      by (auto simp: w coherent_def handleFileChange_resume_def split: option.splits if_splits)
  next
    case (Generated r)
    then have g: "awaitsGeneration (k ! j)" by simp
    have "k ! j \<in> set k" using j by simp
    then have ne: "filter awaitsGeneration k \<noteq> []"
      using g by (auto simp: filter_empty_conv)
    then have l: "isLoading s" and one: "length (filter awaitsGeneration k) = 1"
      and gi: "generatedImage s = None"
      and er: "error s = None \<or> error s = Some ''You can upload a maximum of 4 images.''"
      using assms(1) by (auto simp: coherent_def split: if_splits)
    have "Suc (length (filter awaitsGeneration (take j k @ drop (Suc j) k))) = 1"
      using length_filter_remove_nth [of j k awaitsGeneration] j g one by simp
    then have "filter awaitsGeneration (take j k @ drop (Suc j) k) = []"
      by simp
    then show ?thesis
      using Generated gi er
      by (auto simp: w coherent_def handleGenerate_resume_def split: sum.splits)
  qed
qed

lemma coherent_step:
  "coherent w \<Longrightarrow> step e w = Some w' \<Longrightarrow> coherent w'"
  by (cases w, cases e)
     (auto intro: coherent_fileChange coherent_removeImage coherent_selectRatio
                  coherent_clickGenerate coherent_settle)

lemma coherent_run:
  "coherent w \<Longrightarrow> run es w = Some w' \<Longrightarrow> coherent w'"
proof (induction es arbitrary: w)
  case Nil
  then show ?case by simp
next
  case (Cons e es)
  then show ?case
    by (auto split: option.splits dest: coherent_step)
qed

subsection \<open>A handler run to its end is its two steps in a row\<close>

lemma fileChange_in_two_steps:
  assumes "handleFileChange_enter files s = (s1, Some fs)"
  shows "run [FileChange reader now files, Settle (length k)] (s, k) =
           Some (handleFileChange reader now files s, k)"
  using assms by (simp add: handleFileChange_def)

lemma generate_in_two_steps:
  assumes "canGenerate s" and "\<not> isLoading s"
  shows "run [ClickGenerate te svc, Settle (length k)] (s, k) = Some (handleGenerate te svc s, k)"
  using assms by (simp add: handleGenerate_def handleGenerate_enter_def canGenerate_def)

subsection \<open>Identifiers: when two are equal, and what a removal drops\<close>

text \<open>
  Two identifiers are equal exactly when the names are equal and the clock readings
  are equal. When the identifiers on the page differ from each other, a removal drops
  one image, and \<^verbatim>\<open>referenceImages.length - 1\<close> is the number that remain.
\<close>

lemma digit_eq_iff:
  assumes "a < 10" and "b < 10"
  shows "''0123456789'' ! a = ''0123456789'' ! b \<longleftrightarrow> a = b"
proof -
  have "distinct ''0123456789''" by simp
  moreover have "a < length ''0123456789''" and "b < length ''0123456789''"
    using assms by simp_all
  ultimately show ?thesis by (rule nth_eq_iff_index_eq)
qed

lemma decimal_not_empty: "decimal n \<noteq> []"
  by (subst decimal.simps) simp

lemma decimal_no_hyphen: "CHR ''-'' \<notin> set (decimal n)"
proof (induction n rule: decimal.induct)
  case (1 n)
  have digit: "''0123456789'' ! k \<noteq> CHR ''-''" if "k < 10" for k
  proof -
    have "''0123456789'' ! k \<in> set ''0123456789''"
      using that by (intro nth_mem) simp
    then show ?thesis by auto
  qed
  show ?case
  proof (cases "n < 10")
    case True
    then show ?thesis
      using digit [of n] by (subst decimal.simps) auto
  next
    case False
    then show ?thesis
      using 1 digit [of "n mod 10"] by (subst decimal.simps) auto
  qed
qed

lemma decimal_inject: "decimal n = decimal m \<Longrightarrow> n = m"
proof (induction n arbitrary: m rule: decimal.induct)
  case (1 n)
  show ?case
  proof (cases "n < 10")
    case small: True
    then have n: "decimal n = [''0123456789'' ! n]"
      by (subst decimal.simps) simp
    show ?thesis
    proof (cases "m < 10")
      case True
      then have "decimal m = [''0123456789'' ! m]"
        by (subst decimal.simps) simp
      then show ?thesis
        using "1.prems" n digit_eq_iff [OF small True] by simp
    next
      case False
      then have "decimal m = decimal (m div 10) @ [''0123456789'' ! (m mod 10)]"
        by (subst decimal.simps) simp
      then show ?thesis
        using "1.prems" n decimal_not_empty [of "m div 10"] by simp
    qed
  next
    case big: False
    then have n: "decimal n = decimal (n div 10) @ [''0123456789'' ! (n mod 10)]"
      by (subst decimal.simps) simp
    show ?thesis
    proof (cases "m < 10")
      case True
      then have "decimal m = [''0123456789'' ! m]"
        by (subst decimal.simps) simp
      then show ?thesis
        using "1.prems" n decimal_not_empty [of "n div 10"] by simp
    next
      case False
      then have "decimal m = decimal (m div 10) @ [''0123456789'' ! (m mod 10)]"
        by (subst decimal.simps) simp
      then have front: "decimal (n div 10) = decimal (m div 10)"
        and last: "''0123456789'' ! (n mod 10) = ''0123456789'' ! (m mod 10)"
        using "1.prems" n by simp_all
      have "n div 10 = m div 10"
        using "1.IH" [OF big front] .
      moreover have "n mod 10 = m mod 10"
        using last digit_eq_iff [of "n mod 10" "m mod 10"] by simp
      ultimately show ?thesis
        by (metis div_mult_mod_eq)
    qed
  qed
qed

lemma cut_at_first:
  "c \<notin> set xs \<Longrightarrow> c \<notin> set xs' \<Longrightarrow> xs @ c # ys = xs' @ c # ys' \<Longrightarrow> xs = xs' \<and> ys = ys'"
proof (induction xs arbitrary: xs')
  case Nil
  then show ?case by (cases xs') auto
next
  case (Cons x xs)
  then show ?case by (cases xs') auto
qed

lemma image_id_eq_iff:
  "name f @ ''-'' @ decimal t = name g @ ''-'' @ decimal u \<longleftrightarrow> name f = name g \<and> t = u"
proof
  assume eq: "name f @ ''-'' @ decimal t = name g @ ''-'' @ decimal u"
  then have "rev (name f @ ''-'' @ decimal t) = rev (name g @ ''-'' @ decimal u)"
    by simp
  then have "rev (decimal t) @ CHR ''-'' # rev (name f) = rev (decimal u) @ CHR ''-'' # rev (name g)"
    by simp
  moreover have "CHR ''-'' \<notin> set (rev (decimal t))" and "CHR ''-'' \<notin> set (rev (decimal u))"
    using decimal_no_hyphen by simp_all
  ultimately have "rev (decimal t) = rev (decimal u) \<and> rev (name f) = rev (name g)"
    by (rule cut_at_first [rotated 2])
  then show "name f = name g \<and> t = u"
    using decimal_inject by simp
next
  assume "name f = name g \<and> t = u"
  then show "name f @ ''-'' @ decimal t = name g @ ''-'' @ decimal u" by simp
qed

lemma filter_one_out:
  "distinct (map f xs) \<Longrightarrow> i \<in> set (map f xs) \<Longrightarrow>
   Suc (length (filter (\<lambda>x. f x \<noteq> i) xs)) = length xs"
proof (induction xs)
  case Nil
  then show ?case by simp
next
  case (Cons x xs)
  show ?case
  proof (cases "f x = i")
    case True
    then have "i \<notin> set (map f xs)" using Cons.prems(1) by auto
    then have "filter (\<lambda>x. f x \<noteq> i) xs = xs"
      by (auto simp: filter_id_conv)
    then show ?thesis using True by simp
  next
    case False
    then show ?thesis using Cons by auto
  qed
qed

lemma removal_clears_when_ids_differ:
  assumes "distinct (map id_image (referenceImages s))"
    and "i \<in> set (map id_image (referenceImages s))"
    and "length (referenceImages (handleRemoveImage i s)) < 2"
  shows "generatedImage (handleRemoveImage i s) = None"
proof -
  have "Suc (length (filter (\<lambda>img. id_image img \<noteq> i) (referenceImages s)))
          = length (referenceImages s)"
    using assms(1,2) by (rule filter_one_out)
  moreover have "length (filter (\<lambda>img. id_image img \<noteq> i) (referenceImages s)) < 2"
    using assms(3) by (simp add: handleRemoveImage_def Let_def split: if_splits)
  ultimately have "int (length (referenceImages s)) - 1 < 2"
    by linarith
  then show ?thesis
    by (simp add: handleRemoveImage_def Let_def)
qed

subsection \<open>Evaluation of the example inputs\<close>

lemma decimal_example: "decimal 1700000000000 = ''1700000000000''"
  by (simp add: decimal.simps)

lemmas page_eval =
  initial_def handleFileChange_enter_def handleFileChange_resume_def
  handleGenerate_enter_def handleGenerate_resume_def handleRemoveImage_def canGenerate_def
  generateImageFromReferences_def tryBody_def responseParts_def startsWith_def
  newImages_def fileToBase64_def decimal_example

lemma run_rejected_selection:
  "run [FileChange reads (\<lambda>i. 1700000000000) (Some [png_a1, jpg_b]), Settle 0,
        ClickGenerate wording answers, Settle 0,
        FileChange reads (\<lambda>i. 1700000060000) (Some [png_a1, png_a2, jpg_b])]
       (initial, [])
   = Some (\<lparr>referenceImages =
              [\<lparr>id_image = ''a.png-1700000000000'', file_image = png_a1, base64 = ''first''\<rparr>,
               \<lparr>id_image = ''b.jpg-1700000000000'', file_image = jpg_b, base64 = ''third''\<rparr>],
            aspectRatio = Ratio_1_1, generatedImage = Some ''R'', isLoading = False,
            error = Some ''You can upload a maximum of 4 images.''\<rparr>, [])"
  by (simp add: page_eval)

subsection \<open>Claims\<close>

text \<open>
  Claim C6 says that a removal which leaves fewer than 2 reference images clears the
  stored result. The handler clears it when \<^verbatim>\<open>referenceImages.length - 1 < 2\<close>, as
  if one image went, and the filter drops every image of the given id. Here the page
  was given three files, two of them of one name and in one millisecond, and has
  generated the result \<open>R\<close>; removing the shared id leaves one image and the result
  stays.
\<close>
theorem shared_id_removal_keeps_result:
  "run [FileChange reads (\<lambda>i. 1700000000000) (Some [png_a1, png_a2, jpg_b]), Settle 0,
        ClickGenerate wording answers, Settle 0]
       (initial, [])
   = Some (\<lparr>referenceImages =
              [\<lparr>id_image = ''a.png-1700000000000'', file_image = png_a1, base64 = ''first''\<rparr>,
               \<lparr>id_image = ''a.png-1700000000000'', file_image = png_a2, base64 = ''second''\<rparr>,
               \<lparr>id_image = ''b.jpg-1700000000000'', file_image = jpg_b, base64 = ''third''\<rparr>],
            aspectRatio = Ratio_1_1, generatedImage = Some ''R'', isLoading = False,
            error = None\<rparr>, [])
   \<and> handleRemoveImage ''a.png-1700000000000''
        \<lparr>referenceImages =
           [\<lparr>id_image = ''a.png-1700000000000'', file_image = png_a1, base64 = ''first''\<rparr>,
            \<lparr>id_image = ''a.png-1700000000000'', file_image = png_a2, base64 = ''second''\<rparr>,
            \<lparr>id_image = ''b.jpg-1700000000000'', file_image = jpg_b, base64 = ''third''\<rparr>],
         aspectRatio = Ratio_1_1, generatedImage = Some ''R'', isLoading = False,
         error = None\<rparr>
     = \<lparr>referenceImages =
          [\<lparr>id_image = ''b.jpg-1700000000000'', file_image = jpg_b, base64 = ''third''\<rparr>],
        aspectRatio = Ratio_1_1, generatedImage = Some ''R'', isLoading = False,
        error = None\<rparr>"
proof (rule conjI)
  show "run [FileChange reads (\<lambda>i. 1700000000000) (Some [png_a1, png_a2, jpg_b]), Settle 0,
        ClickGenerate wording answers, Settle 0]
       (initial, [])
   = Some (\<lparr>referenceImages =
              [\<lparr>id_image = ''a.png-1700000000000'', file_image = png_a1, base64 = ''first''\<rparr>,
               \<lparr>id_image = ''a.png-1700000000000'', file_image = png_a2, base64 = ''second''\<rparr>,
               \<lparr>id_image = ''b.jpg-1700000000000'', file_image = jpg_b, base64 = ''third''\<rparr>],
            aspectRatio = Ratio_1_1, generatedImage = Some ''R'', isLoading = False,
            error = None\<rparr>, [])"
    by (simp add: page_eval)
next
  show "handleRemoveImage ''a.png-1700000000000''
        \<lparr>referenceImages =
           [\<lparr>id_image = ''a.png-1700000000000'', file_image = png_a1, base64 = ''first''\<rparr>,
            \<lparr>id_image = ''a.png-1700000000000'', file_image = png_a2, base64 = ''second''\<rparr>,
            \<lparr>id_image = ''b.jpg-1700000000000'', file_image = jpg_b, base64 = ''third''\<rparr>],
         aspectRatio = Ratio_1_1, generatedImage = Some ''R'', isLoading = False,
         error = None\<rparr>
     = \<lparr>referenceImages =
          [\<lparr>id_image = ''b.jpg-1700000000000'', file_image = jpg_b, base64 = ''third''\<rparr>],
        aspectRatio = Ratio_1_1, generatedImage = Some ''R'', isLoading = False,
        error = None\<rparr>"
    by (simp add: handleRemoveImage_def)
qed

text \<open>
  Claim C7. A selection of files that would bring the number of reference images
  above 4 is rejected as a whole: the error is set, the reference images and every
  other cell are as before, and nothing waits that could add a file later.
\<close>
theorem selection_over_cap_rejected:
  assumes "length (referenceImages s) + length fs > 4"
  shows "handleFileChange reader now (Some fs) s =
           s\<lparr>error := Some ''You can upload a maximum of 4 images.''\<rparr>
         \<and> referenceImages (handleFileChange reader now (Some fs) s) = referenceImages s
         \<and> step (FileChange reader now (Some fs)) (s, k) =
             Some (s\<lparr>error := Some ''You can upload a maximum of 4 images.''\<rparr>, k)"
  using assms by (simp add: handleFileChange_def handleFileChange_enter_def)

text \<open>C7 at two reference images and a selection of three files.\<close>
theorem selection_over_cap_rejected_witness:
  "handleFileChange reads (\<lambda>i. 1700000060000) (Some [png_a1, png_a2, jpg_b])
     \<lparr>referenceImages =
        [\<lparr>id_image = ''a.png-1700000000000'', file_image = png_a1, base64 = ''first''\<rparr>,
         \<lparr>id_image = ''b.jpg-1700000000000'', file_image = jpg_b, base64 = ''third''\<rparr>],
      aspectRatio = Ratio_1_1, generatedImage = None, isLoading = False, error = None\<rparr>
   = \<lparr>referenceImages =
        [\<lparr>id_image = ''a.png-1700000000000'', file_image = png_a1, base64 = ''first''\<rparr>,
         \<lparr>id_image = ''b.jpg-1700000000000'', file_image = jpg_b, base64 = ''third''\<rparr>],
      aspectRatio = Ratio_1_1, generatedImage = None, isLoading = False,
      error = Some ''You can upload a maximum of 4 images.''\<rparr>"
  using selection_over_cap_rejected
    [of "\<lparr>referenceImages =
           [\<lparr>id_image = ''a.png-1700000000000'', file_image = png_a1, base64 = ''first''\<rparr>,
            \<lparr>id_image = ''b.jpg-1700000000000'', file_image = jpg_b, base64 = ''third''\<rparr>],
          aspectRatio = Ratio_1_1, generatedImage = None, isLoading = False, error = None\<rparr>"
        "[png_a1, png_a2, jpg_b]" reads "\<lambda>i. 1700000060000" "[]"]
  by simp

text \<open>
  Claim C8 says that an error and a generated image are never stored together. They
  are here: two files are selected and read, an image is generated, and a selection
  of three more files is rejected, which sets the error and leaves the image.
\<close>
theorem error_and_result_both_stored:
  "run [FileChange reads (\<lambda>i. 1700000000000) (Some [png_a1, jpg_b]), Settle 0,
        ClickGenerate wording answers, Settle 0,
        FileChange reads (\<lambda>i. 1700000060000) (Some [png_a1, png_a2, jpg_b])]
       (initial, [])
   = Some (\<lparr>referenceImages =
              [\<lparr>id_image = ''a.png-1700000000000'', file_image = png_a1, base64 = ''first''\<rparr>,
               \<lparr>id_image = ''b.jpg-1700000000000'', file_image = jpg_b, base64 = ''third''\<rparr>],
            aspectRatio = Ratio_1_1, generatedImage = Some ''R'', isLoading = False,
            error = Some ''You can upload a maximum of 4 images.''\<rparr>, [])"
  by (rule run_rejected_selection)

text \<open>
  Claim C8, amended. In every state the page can reach, an error stored beside a
  generated image is the error of a rejected file selection,
  \<^verbatim>\<open>You can upload a maximum of 4 images.\<close>, and the result section shows that error
  and not the image. So the error of a failed generation is never stored beside a
  generated image.
\<close>
theorem error_beside_result_is_cap_error:
  assumes "run es (initial, []) = Some (s, k)"
    and "error s \<noteq> None" and "generatedImage s \<noteq> None"
  shows "error s = Some ''You can upload a maximum of 4 images.''
         \<and> resultSection s = ErrorBox ''You can upload a maximum of 4 images.''"
proof -
  have "coherent (s, k)"
    using coherent_run [OF coherent_initial assms(1)] .
  then show ?thesis
    using assms(2,3) by (auto simp: coherent_def resultSection_def split: if_splits)
qed

text \<open>The amended C8 at the state of the run above.\<close>
theorem error_beside_result_is_cap_error_witness:
  "resultSection
     \<lparr>referenceImages =
        [\<lparr>id_image = ''a.png-1700000000000'', file_image = png_a1, base64 = ''first''\<rparr>,
         \<lparr>id_image = ''b.jpg-1700000000000'', file_image = jpg_b, base64 = ''third''\<rparr>],
      aspectRatio = Ratio_1_1, generatedImage = Some ''R'', isLoading = False,
      error = Some ''You can upload a maximum of 4 images.''\<rparr>
   = ErrorBox ''You can upload a maximum of 4 images.''"
  using error_beside_result_is_cap_error [OF run_rejected_selection] by simp

text \<open>
  Claim C9 says that two uploads never get one identifier. The identifier is the name
  of the file, a hyphen and the clock in milliseconds: two files of one name, selected
  together and met in the same millisecond, get the same one.
\<close>
theorem same_name_same_id:
  "newImages reads (\<lambda>i. 1700000000000) [png_a1, png_a2] =
     Some [\<lparr>id_image = ''a.png-1700000000000'', file_image = png_a1, base64 = ''first''\<rparr>,
           \<lparr>id_image = ''a.png-1700000000000'', file_image = png_a2, base64 = ''second''\<rparr>]
   \<and> png_a1 \<noteq> png_a2"
  by (simp add: newImages_def fileToBase64_def decimal_example)

end
